theory Spec2Isabelle
  imports Main "HOL-Library.AList" "HOL-Library.Char_ord" "HOL-Library.List_Lexorder"
begin

section \<open>Python values, dictionaries and responses\<close>

text \<open>
  The views of \<^verbatim>\<open>lms/djangoapps/certificates/apis/v0/views.py\<close> handle certificates as
  Python dictionaries whose values are \<^verbatim>\<open>None\<close>, booleans, strings, datetimes and course
  keys. A datetime with a time zone (\<open>PTime\<close>) is the instant it names; a datetime without
  one (\<open>PNaiveTime\<close>) is its wall-clock reading. The course key is an opaque value of the
  \<^verbatim>\<open>opaque_keys\<close> library: the type variable \<open>'k\<close>.
\<close>

datatype 'k pyval = PNone | PBool bool | PStr string | PTime int | PNaiveTime int | PKey 'k

type_synonym 'k pydict = "string \<rightharpoonup> 'k pyval"

text \<open>
  The exceptions that leave the handlers. \<^verbatim>\<open>RelatedObjectDoesNotExist\<close> is what Django
  raises when \<^verbatim>\<open>user.profile\<close> is read and the user has no profile row.
\<close>

datatype error = KeyError | TypeError | RelatedObjectDoesNotExist

text \<open>\<^verbatim>\<open>d.get(key, dflt)\<close>; \<^verbatim>\<open>d.get(key)\<close> is \<^verbatim>\<open>d.get(key, None)\<close>.\<close>

definition dict_get :: "'k pydict \<Rightarrow> string \<Rightarrow> 'k pyval \<Rightarrow> 'k pyval" where
  "dict_get d key dflt = (case d key of None \<Rightarrow> dflt | Some v \<Rightarrow> v)"

text \<open>\<^verbatim>\<open>d[key]\<close> raises \<^verbatim>\<open>KeyError\<close> on a missing key.\<close>

definition dict_index :: "'k pydict \<Rightarrow> string \<Rightarrow> error + 'k pyval" where
  "dict_index d key = (case d key of None \<Rightarrow> Inl KeyError | Some v \<Rightarrow> Inr v)"

text \<open>The truth value that an \<^verbatim>\<open>if\<close> gives a value.\<close>

fun truthy :: "'k pyval \<Rightarrow> bool" where
  "truthy PNone = False"
| "truthy (PBool b) = b"
| "truthy (PStr s) = (s \<noteq> [])"
| "truthy (PTime t) = True"
| "truthy (PNaiveTime t) = True"
| "truthy (PKey k) = True"

text \<open>
  A response body is a JSON object (a dictionary literal, its keys in the order written) or
  an array of them. \<^verbatim>\<open>Response(data)\<close> without a status is a 200.
\<close>

datatype 'k body = Dict "(string \<times> 'k pyval) list" | Array "(string \<times> 'k pyval) list list"

record 'k response =
  status :: nat
  data :: "'k body"

definition Response :: "nat \<Rightarrow> 'k body \<Rightarrow> 'k response" where
  "Response st d = \<lparr>status = st, data = d\<rparr>"

definition Response_ok :: "'k body \<Rightarrow> 'k response" where
  "Response_ok d = Response 200 d"

fun body_keys :: "'k body \<Rightarrow> string list" where
  "body_keys (Dict kvs) = map fst kvs"
| "body_keys (Array ds) = []"

fun body_entries :: "'k body \<Rightarrow> (string \<times> 'k pyval) list list" where
  "body_entries (Dict kvs) = []"
| "body_entries (Array ds) = ds"

section \<open>The collaborators of the views\<close>

text \<open>
  The user model: \<^verbatim>\<open>request.user.username\<close>, \<^verbatim>\<open>request.user.is_staff\<close>,
  \<^verbatim>\<open>user.profile\<close>. The profile is a row of another table, related one to one: a user
  may have none (\<open>None\<close>), and reading \<^verbatim>\<open>user.profile\<close> then raises.
\<close>

record 'p user =
  username :: string
  is_staff :: bool
  profile :: "'p option"

record 'p request =
  user :: "'p user"

text \<open>
  What the views import and call, as parameters: the parser of course keys (\<open>None\<close> is
  \<^verbatim>\<open>InvalidKeyError\<close>), \<^verbatim>\<open>six.text_type\<close>, the two functions of
  \<^verbatim>\<open>lms.djangoapps.certificates.api\<close>, the course overviews (the items of the dictionary
  that \<^verbatim>\<open>CourseOverview.get_from_ids_if_exists\<close> returns, and the two attributes read from
  an overview \<open>'o\<close>), \<^verbatim>\<open>certificates_viewable_for_course\<close>, the user table (\<open>None\<close> is
  \<^verbatim>\<open>User.DoesNotExist\<close>) and \<^verbatim>\<open>visible_fields\<close>.
\<close>

record ('k, 'o, 'p) env =
  CourseKey_from_string :: "string \<Rightarrow> 'k option"
  text_type :: "'k pyval \<Rightarrow> string"
  get_certificate_for_user :: "string \<Rightarrow> 'k \<Rightarrow> 'k pydict option"
  get_certificates_for_user :: "string \<Rightarrow> 'k pydict list"
  get_from_ids_if_exists :: "'k pyval list \<Rightarrow> ('k pyval \<times> 'o) list"
  display_name_with_default :: "'o \<Rightarrow> string"
  display_org_with_default :: "'o \<Rightarrow> string"
  certificates_viewable_for_course :: "'o \<Rightarrow> bool"
  User_objects_get :: "string \<Rightarrow> 'p user option"
  visible_fields :: "'p \<Rightarrow> 'p user \<Rightarrow> string list"

section \<open>CertificatesDetailView\<close>

text \<open>
  The effects of the handler, in the order they happen: the warning it logs and the
  certificate lookup it makes.
\<close>

datatype 'k event = LogWarning string | CertificateLookup string 'k

definition CertificatesDetailView_get ::
  "('k, 'o, 'p) env \<Rightarrow> 'p request \<Rightarrow> string \<Rightarrow> string \<Rightarrow> 'k response \<times> 'k event list" where
  "CertificatesDetailView_get e request uname course_id =
     (case CourseKey_from_string e course_id of
        None \<Rightarrow>
          (Response 404 (Dict [(''error_code'', PStr ''course_id_not_valid'')]),
           [LogWarning (''Course ID string '' @ [CHR 0x22] @ course_id @ [CHR 0x22] @ '' is not valid'')])
      | Some course_key \<Rightarrow>
          (case get_certificate_for_user e uname course_key of
             None \<Rightarrow>
               (Response 404 (Dict [(''error_code'', PStr ''no_certificate_for_user'')]),
                [CertificateLookup uname course_key])
           | Some user_cert \<Rightarrow>
               (Response_ok (Dict
                  [(''username'', dict_get user_cert ''username'' PNone),
                   (''course_id'', PStr (text_type e (dict_get user_cert ''course_key'' PNone))),
                   (''certificate_type'', dict_get user_cert ''type'' PNone),
                   (''created_date'', dict_get user_cert ''created'' PNone),
                   (''status'', dict_get user_cert ''status'' PNone),
                   (''is_passing'', dict_get user_cert ''is_passing'' PNone),
                   (''download_url'', dict_get user_cert ''download_url'' PNone),
                   (''grade'', dict_get user_cert ''grade'' PNone)]),
                [CertificateLookup uname course_key])))"

section \<open>CertificatesListView\<close>

text \<open>
  \<^verbatim>\<open>_viewable_by_requestor\<close>. Only the lookup of the user is inside the \<^verbatim>\<open>try\<close>;
  \<^verbatim>\<open>user.profile\<close> is read after it, for every requestor, before the three answers are
  combined.
\<close>

definition CertificatesListView_viewable_by_requestor ::
  "('k, 'o, 'p) env \<Rightarrow> 'p request \<Rightarrow> string \<Rightarrow> error + bool" where
  "CertificatesListView_viewable_by_requestor e request uname =
     (case User_objects_get e uname of
        None \<Rightarrow> Inr False
      | Some u \<Rightarrow>
          (let is_owner = (username (user request) = uname);
               staff = is_staff (user request)
           in case profile u of
                None \<Rightarrow> Inl RelatedObjectDoesNotExist
              | Some user_profile \<Rightarrow>
                  (let certificates_viewable =
                         (''course_certificates'' \<in> set (visible_fields e user_profile u))
                   in Inr (is_owner \<or> staff \<or> certificates_viewable))))"

text \<open>
  The first loop of \<^verbatim>\<open>_get_certificates_for_user\<close>. \<^verbatim>\<open>passing_certificates\<close> is a
  dictionary keyed by course key: an association list in insertion order, where storing
  under a key that is present replaces the value in place
  (\<^const>\<open>AList.update\<close>).
\<close>

fun passing_loop ::
  "'k pydict list \<Rightarrow> ('k pyval \<times> 'k pydict) list \<Rightarrow> error + ('k pyval \<times> 'k pydict) list" where
  "passing_loop [] passing_certificates = Inr passing_certificates"
| "passing_loop (course_certificate # rest) passing_certificates =
     (if truthy (dict_get course_certificate ''is_passing'' (PBool False))
      then (case dict_index course_certificate ''course_key'' of
              Inl err \<Rightarrow> Inl err
            | Inr course_key \<Rightarrow>
                passing_loop rest (AList.update course_key course_certificate passing_certificates))
      else passing_loop rest passing_certificates)"

text \<open>The two assignments that attach the course's name and organization.\<close>

definition attach_overview :: "('k, 'o, 'p) env \<Rightarrow> 'o \<Rightarrow> 'k pydict \<Rightarrow> 'k pydict" where
  "attach_overview e course_overview course_certificate =
     course_certificate
       (''course_display_name'' \<mapsto> PStr (display_name_with_default e course_overview),
        ''course_organization'' \<mapsto> PStr (display_org_with_default e course_overview))"

text \<open>
  The second loop, over the items of the dictionary of course overviews. The items of a
  dictionary have no key twice, so every certificate is read and changed at most once and
  the change in place is not seen through \<^verbatim>\<open>passing_certificates\<close> again.
\<close>

fun viewable_loop ::
  "('k, 'o, 'p) env \<Rightarrow> ('k pyval \<times> 'k pydict) list \<Rightarrow> ('k pyval \<times> 'o) list \<Rightarrow>
   'k pydict list \<Rightarrow> error + 'k pydict list" where
  "viewable_loop e passing_certificates [] viewable_certificates = Inr viewable_certificates"
| "viewable_loop e passing_certificates ((course_key, course_overview) # rest) viewable_certificates =
     (if certificates_viewable_for_course e course_overview
      then (case map_of passing_certificates course_key of
              None \<Rightarrow> Inl KeyError
            | Some course_certificate \<Rightarrow>
                viewable_loop e passing_certificates rest
                  (viewable_certificates @ [attach_overview e course_overview course_certificate]))
      else viewable_loop e passing_certificates rest viewable_certificates)"

text \<open>
  Python's \<^verbatim>\<open>a < b\<close> on the values of the dictionaries. Two booleans, two strings, two
  datetimes that both have a time zone or both have none, and two course keys are ordered
  (strings by their characters, course keys as \<^verbatim>\<open>OpaqueKey.__lt__\<close> orders the keys of one
  kind: the order of \<open>'k\<close>). Every other comparison raises \<^verbatim>\<open>TypeError\<close> in Python 3:
  with \<^verbatim>\<open>None\<close>, between values of two kinds, and between a datetime with a time zone and
  one without.
\<close>

fun py_lt :: "'k::linorder pyval \<Rightarrow> 'k pyval \<Rightarrow> error + bool" where
  "py_lt (PBool a) (PBool b) = Inr (a < b)"
| "py_lt (PStr a) (PStr b) = Inr (a < b)"
| "py_lt (PTime a) (PTime b) = Inr (a < b)"
| "py_lt (PNaiveTime a) (PNaiveTime b) = Inr (a < b)"
| "py_lt (PKey a) (PKey b) = Inr (a < b)"
| "py_lt a b = Inl TypeError"

text \<open>
  \<^verbatim>\<open>viewable_certificates.sort(key=lambda certificate: certificate['created'])\<close>. The keys
  are computed first (\<^verbatim>\<open>KeyError\<close> on a certificate without the key). A list of fewer
  than two entries is compared with nothing and stays as it is. Otherwise the keys are
  compared with \<^verbatim>\<open>a < b\<close> until their order is known. By \<^const>\<open>py_lt\<close> the values fall
  into kinds, ordered within a kind and raising across kinds and on \<^verbatim>\<open>None\<close>; a sort
  cannot know the order of two keys of different kinds without comparing across the kinds,
  so it raises \<^verbatim>\<open>TypeError\<close> exactly when some two of the keys do not compare, and
  otherwise it is the stable ascending sort: each entry is put before the first one that is
  not less than it (\<open>py_insort\<close>), the entries taken from the last to the first.
\<close>

fun created_keys :: "'k pydict list \<Rightarrow> error + 'k pyval list" where
  "created_keys [] = Inr []"
| "created_keys (certificate # rest) =
     (case dict_index certificate ''created'' of
        Inl err \<Rightarrow> Inl err
      | Inr v \<Rightarrow> (case created_keys rest of Inl err \<Rightarrow> Inl err | Inr vs \<Rightarrow> Inr (v # vs)))"

fun py_insort :: "'k::linorder pyval \<times> 'a \<Rightarrow> ('k pyval \<times> 'a) list \<Rightarrow> ('k pyval \<times> 'a) list" where
  "py_insort x [] = [x]"
| "py_insort x (y # ys) =
     (if py_lt (fst y) (fst x) = Inr True then y # py_insort x ys else x # y # ys)"

definition py_comparable :: "'k::linorder pyval list \<Rightarrow> bool" where
  "py_comparable ks = list_all (\<lambda>a. list_all (\<lambda>b. py_lt a b \<noteq> Inl TypeError) ks) ks"

definition sort_by_created :: "'k::linorder pydict list \<Rightarrow> error + 'k pydict list" where
  "sort_by_created certificates =
     (case created_keys certificates of
        Inl err \<Rightarrow> Inl err
      | Inr ks \<Rightarrow>
          if length certificates < 2 then Inr certificates
          else if py_comparable ks
          then Inr (map snd (foldr py_insort (zip ks certificates) []))
          else Inl TypeError)"

definition CertificatesListView_get_certificates_for_user ::
  "('k::linorder, 'o, 'p) env \<Rightarrow> string \<Rightarrow> error + 'k pydict list" where
  "CertificatesListView_get_certificates_for_user e uname =
     (let course_certificates = get_certificates_for_user e uname in
      case passing_loop course_certificates [] of
        Inl err \<Rightarrow> Inl err
      | Inr passing_certificates \<Rightarrow>
          (case viewable_loop e passing_certificates
                  (get_from_ids_if_exists e (map fst passing_certificates)) [] of
             Inl err \<Rightarrow> Inl err
           | Inr viewable_certificates \<Rightarrow> sort_by_created viewable_certificates))"

text \<open>The dictionary literal that \<^verbatim>\<open>get\<close> appends for each certificate.\<close>

definition list_entry :: "('k, 'o, 'p) env \<Rightarrow> 'k pydict \<Rightarrow> (string \<times> 'k pyval) list" where
  "list_entry e user_cert =
     [(''username'', dict_get user_cert ''username'' PNone),
      (''course_id'', PStr (text_type e (dict_get user_cert ''course_key'' PNone))),
      (''course_display_name'', dict_get user_cert ''course_display_name'' PNone),
      (''course_organization'', dict_get user_cert ''course_organization'' PNone),
      (''certificate_type'', dict_get user_cert ''type'' PNone),
      (''created_date'', dict_get user_cert ''created'' PNone),
      (''modified_date'', dict_get user_cert ''modified'' PNone),
      (''status'', dict_get user_cert ''status'' PNone),
      (''is_passing'', dict_get user_cert ''is_passing'' PNone),
      (''download_url'', dict_get user_cert ''download_url'' PNone),
      (''grade'', dict_get user_cert ''grade'' PNone)]"

text \<open>
  An exception that leaves the handler is not a response of the handler: the result is a
  sum, \<open>Inl\<close> the exception.
\<close>

definition CertificatesListView_get ::
  "('k::linorder, 'o, 'p) env \<Rightarrow> 'p request \<Rightarrow> string \<Rightarrow> error + 'k response" where
  "CertificatesListView_get e request uname =
     (case CertificatesListView_viewable_by_requestor e request uname of
        Inl err \<Rightarrow> Inl err
      | Inr viewable \<Rightarrow>
          if viewable
          then (case CertificatesListView_get_certificates_for_user e uname of
                  Inl err \<Rightarrow> Inl err
                | Inr user_certs \<Rightarrow> Inr (Response_ok (Array (map (list_entry e) user_certs))))
          else Inr (Response_ok (Array [])))"

text \<open>
  The keys that the docstring of \<^verbatim>\<open>CertificatesListView\<close> gives for an entry of the
  response (``a list of dicts with the following keys/values'').
\<close>

definition CertificatesListView_documented_keys :: "string list" where
  "CertificatesListView_documented_keys =
     [''username'', ''course_id'', ''course_display_name'', ''course_organization'',
      ''certificate_type'', ''created_date'', ''status'', ''is_passing'', ''download_url'',
      ''grade'']"

text \<open>
  For a course key \<open>k\<close>, the certificates that the first loop stores under \<open>k\<close>: those
  with a true \<^verbatim>\<open>is_passing\<close> and the course key \<open>k\<close>.
\<close>

definition passing_for :: "'k pyval \<Rightarrow> 'k pydict \<Rightarrow> bool" where
  "passing_for k certificate =
     (truthy (dict_get certificate ''is_passing'' (PBool False)) \<and> certificate ''course_key'' = Some k)"

section \<open>The proctored-exam permission\<close>

text \<open>
  \<^verbatim>\<open>lms/djangoapps/courseware/tests/test_rules.py\<close> tests the permission
  \<^verbatim>\<open>edx_proctoring.can_take_proctored_exam\<close>; the rule itself (\<^verbatim>\<open>courseware.rules\<close>)
  and the enrollment model are not among the sources at hand.
\<close>

text \<open>
  Modelled from the spec: the enrollment table of \<^verbatim>\<open>CourseEnrollment\<close>, missing from the
  sources. An enrollment is a user, a course identifier and a mode; it is changed by
  enrolling and unenrolling.
\<close>

type_synonym enrollments = "string \<times> string \<rightharpoonup> string"

definition enroll :: "enrollments \<Rightarrow> string \<Rightarrow> string \<Rightarrow> string \<Rightarrow> enrollments" where
  "enroll en u course mode = en((u, course) \<mapsto> mode)"

definition unenroll :: "enrollments \<Rightarrow> string \<Rightarrow> string \<Rightarrow> enrollments" where
  "unenroll en u course = en((u, course) := None)"

text \<open>
  The context dictionary of the permission check: the course identifier, an optional
  backend name and an optional proctoring flag.
\<close>

record exam_context =
  exam_course_id :: string
  exam_backend :: "string option"
  exam_is_proctored :: "bool option"

text \<open>The setting \<^verbatim>\<open>PROCTORING_BACKENDS\<close>: a configuration dictionary for each backend name.\<close>

type_synonym proctoring_backends = "string \<rightharpoonup> (string \<rightharpoonup> bool)"

text \<open>
  Modelled from the spec: whether the backend that the context names flags
  \<^verbatim>\<open>allow_honor_mode\<close>; part of the rule \<^verbatim>\<open>can_take_proctored_exam\<close>, missing from the
  sources.
\<close>

definition allow_honor_mode :: "proctoring_backends \<Rightarrow> exam_context \<Rightarrow> bool" where
  "allow_honor_mode backends ctx =
     (case exam_backend ctx of
        None \<Rightarrow> False
      | Some name \<Rightarrow>
          (case backends name of
             None \<Rightarrow> False
           | Some config \<Rightarrow> config ''allow_honor_mode'' = Some True))"

text \<open>
  Modelled from the spec: the rule \<^verbatim>\<open>can_take_proctored_exam\<close> of
  \<^verbatim>\<open>courseware.rules\<close>, missing from the sources. No enrollment: denied; audit mode:
  denied; verified, masters, professional: allowed; an unrecognized mode string: denied;
  honor mode: denied unless a named backend configuration flags \<^verbatim>\<open>allow_honor_mode\<close>, in
  which case allowed.
\<close>

definition can_take_proctored_exam ::
  "proctoring_backends \<Rightarrow> enrollments \<Rightarrow> string \<Rightarrow> exam_context \<Rightarrow> bool" where
  "can_take_proctored_exam backends en u ctx =
     (case en (u, exam_course_id ctx) of
        None \<Rightarrow> False
      | Some mode \<Rightarrow>
          if mode = ''audit'' then False
          else if mode \<in> {''verified'', ''masters'', ''professional''} then True
          else if mode = ''honor'' then allow_honor_mode backends ctx
          else False)"

text \<open>
  The tests, from the source. \<^verbatim>\<open>setUp\<close> unenrolls the user from the course
  \<^verbatim>\<open>CourseLocator('MITx', '000', 'Perm_course')\<close>; \<^verbatim>\<open>test_proctoring_perm\<close> enrolls the
  user in the mode, when there is one, and asks for the permission with the course
  identifier alone; its data are the pairs of a mode and the expected answer.
\<close>

definition test_course_id :: string where
  "test_course_id = ''course-v1:MITx+000+Perm_course''"

definition test_setUp :: "enrollments \<Rightarrow> string \<Rightarrow> enrollments" where
  "test_setUp en u = unenroll en u test_course_id"

definition test_proctoring_perm_data :: "(string option \<times> bool) list" where
  "test_proctoring_perm_data =
     [(None, False), (Some ''audit'', False), (Some ''verified'', True), (Some ''masters'', True),
      (Some ''professional'', True), (Some ''no-id-professional'', False)]"

definition test_proctoring_perm ::
  "proctoring_backends \<Rightarrow> enrollments \<Rightarrow> string \<Rightarrow> string option \<Rightarrow> bool" where
  "test_proctoring_perm backends en u mode =
     (let en1 = test_setUp en u;
          en2 = (case mode of None \<Rightarrow> en1 | Some m \<Rightarrow> enroll en1 u test_course_id m)
      in can_take_proctored_exam backends en2 u
           \<lparr>exam_course_id = test_course_id, exam_backend = None, exam_is_proctored = None\<rparr>)"

text \<open>
  \<^verbatim>\<open>test_proctoring_perm_with_honor_mode_permission\<close>: the settings it overrides, and the
  check it makes after enrolling the user in honor mode.
\<close>

definition test_honor_backends :: proctoring_backends where
  "test_honor_backends =
     [''mock_proctoring_allow_honor_mode'' \<mapsto> [''allow_honor_mode'' \<mapsto> True]]"

definition test_proctoring_perm_with_honor_mode_permission :: "enrollments \<Rightarrow> string \<Rightarrow> bool" where
  "test_proctoring_perm_with_honor_mode_permission en u =
     can_take_proctored_exam test_honor_backends
       (enroll (test_setUp en u) u test_course_id ''honor'') u
       \<lparr>exam_course_id = test_course_id,
        exam_backend = Some ''mock_proctoring_allow_honor_mode'',
        exam_is_proctored = Some True\<rparr>"

section \<open>A small platform to run the views on\<close>

text \<open>
  Course keys are their own strings; an overview is its display name, its organization and
  whether its certificates are viewable; a profile is the list of its visible fields.
  The user \<^verbatim>\<open>carol\<close> has no profile row.
\<close>

definition demo_certificate :: "string \<Rightarrow> int \<Rightarrow> bool \<Rightarrow> string pydict" where
  "demo_certificate course t passing =
     [''username'' \<mapsto> PStr ''bob'', ''course_key'' \<mapsto> PKey course,
      ''type'' \<mapsto> PStr ''verified'', ''status'' \<mapsto> PStr ''downloadable'',
      ''grade'' \<mapsto> PStr ''0.98'', ''created'' \<mapsto> PTime t, ''modified'' \<mapsto> PTime (t + 1),
      ''is_passing'' \<mapsto> PBool passing,
      ''download_url'' \<mapsto> PStr ''http://www.example.com/cert.pdf'']"

definition demo_certificates :: "string pydict list" where
  "demo_certificates =
     [demo_certificate ''edX/DemoX/Demo_Course'' 30 True,
      demo_certificate ''edX/DemoX/Failed'' 5 False,
      demo_certificate ''MITx/000/Perm_course'' 10 True,
      demo_certificate ''edX/DemoX/Hidden'' 20 True,
      demo_certificate ''edX/DemoX/Demo_Course'' 40 True]"

definition demo_overviews :: "(string pyval \<times> string \<times> string \<times> bool) list" where
  "demo_overviews =
     [(PKey ''edX/DemoX/Demo_Course'', ''Demo Course'', ''edX'', True),
      (PKey ''MITx/000/Perm_course'', ''Permissions'', ''MITx'', True),
      (PKey ''edX/DemoX/Hidden'', ''Hidden'', ''edX'', False)]"

definition demo_users :: "(string \<times> string list user) list" where
  "demo_users =
     [(''bob'', \<lparr>username = ''bob'', is_staff = False, profile = Some []\<rparr>),
      (''alice'', \<lparr>username = ''alice'', is_staff = False, profile = Some []\<rparr>),
      (''carol'', \<lparr>username = ''carol'', is_staff = False, profile = None\<rparr>)]"

fun demo_text_type :: "string pyval \<Rightarrow> string" where
  "demo_text_type PNone = ''None''"
| "demo_text_type (PBool b) = (if b then ''True'' else ''False'')"
| "demo_text_type (PStr s) = s"
| "demo_text_type (PTime t) = ''datetime''"
| "demo_text_type (PNaiveTime t) = ''datetime''"
| "demo_text_type (PKey k) = k"

definition demo_env :: "(string, string \<times> string \<times> bool, string list) env" where
  "demo_env =
     \<lparr>CourseKey_from_string =
        (\<lambda>s. if PKey s \<in> set (map fst demo_overviews) then Some s else None),
      text_type = demo_text_type,
      get_certificate_for_user =
        (\<lambda>u k. if u = ''bob''
                then find (\<lambda>c. c ''course_key'' = Some (PKey k)) demo_certificates else None),
      get_certificates_for_user = (\<lambda>u. if u = ''bob'' then demo_certificates else []),
      get_from_ids_if_exists = (\<lambda>ks. filter (\<lambda>(k, ov). k \<in> set ks) demo_overviews),
      display_name_with_default = fst,
      display_org_with_default = (\<lambda>ov. fst (snd ov)),
      certificates_viewable_for_course = (\<lambda>ov. snd (snd ov)),
      User_objects_get = map_of demo_users,
      visible_fields = (\<lambda>p u. p)\<rparr>"

definition demo_request :: "string \<Rightarrow> string list request" where
  "demo_request name = \<lparr>user = \<lparr>username = name, is_staff = False, profile = Some []\<rparr>\<rparr>"

text \<open>
  What the list view is to return for \<^verbatim>\<open>bob\<close>: of the two passing certificates of the
  demo course the later one of the list, after the certificate created before it; not the
  failed certificate and not the one of the course whose certificates are not viewable.
\<close>

definition demo_viewable_certificates :: "string pydict list" where
  "demo_viewable_certificates =
     [attach_overview demo_env (''Permissions'', ''MITx'', True)
        (demo_certificate ''MITx/000/Perm_course'' 10 True),
      attach_overview demo_env (''Demo Course'', ''edX'', True)
        (demo_certificate ''edX/DemoX/Demo_Course'' 40 True)]"

section \<open>Facts about the two passes and the sort\<close>

lemma passing_loop_map_of:
  "passing_loop cs d = Inr d' \<Longrightarrow>
   map_of d' k =
     (case filter (\<lambda>c. truthy (dict_get c ''is_passing'' (PBool False)) \<and> c ''course_key'' = Some k) cs of
        [] \<Rightarrow> map_of d k
      | x # xs \<Rightarrow> Some (last (x # xs)))"
proof (induction cs arbitrary: d)
  case Nil
  then show ?case by simp
next
  case (Cons c cs)
  show ?case
  proof (cases "truthy (dict_get c ''is_passing'' (PBool False))")
    case False
    with Cons show ?thesis by simp
  next
    case True
    show ?thesis
    proof (cases "c ''course_key''")
      case None
      with True Cons.prems show ?thesis by (simp add: dict_index_def)
    next
      case (Some k')
      with True Cons.prems have step: "passing_loop cs (AList.update k' c d) = Inr d'"
        by (simp add: dict_index_def)
      from Cons.IH [OF step] True Some show ?thesis
        by (auto simp: update_conv' split: list.splits)
    qed
  qed
qed

lemma passing_loop_distinct:
  "passing_loop cs d = Inr d' \<Longrightarrow> distinct (map fst d) \<Longrightarrow> distinct (map fst d')"
  by (induction cs arbitrary: d) (auto simp: distinct_update dict_index_def split: if_splits sum.splits option.splits)

lemma viewable_loop_eq:
  "viewable_loop e p items acc = Inr r \<Longrightarrow>
   r = acc @ map (\<lambda>(k, ov). attach_overview e ov (the (map_of p k)))
                 (filter (\<lambda>(k, ov). certificates_viewable_for_course e ov) items)
   \<and> (\<forall>(k, ov) \<in> set items. certificates_viewable_for_course e ov \<longrightarrow> map_of p k \<noteq> None)"
  by (induction e p items acc rule: viewable_loop.induct) (auto split: if_splits option.splits)

lemma created_keys_Inr:
  "created_keys cs = Inr ks \<Longrightarrow> ks = map (\<lambda>c. the (c ''created'')) cs \<and> (\<forall>c \<in> set cs. c ''created'' \<noteq> None)"
  by (induction cs arbitrary: ks) (auto simp: dict_index_def split: sum.splits option.splits)

lemma py_lt_Inl: "py_lt a b = Inl err \<Longrightarrow> err = TypeError"
  by (cases a; cases b; simp)

lemma py_lt_asym: "py_lt a b = Inr True \<Longrightarrow> py_lt b a = Inr False"
  by (cases a; cases b; auto)

lemma py_lt_trans:
  "py_lt b a = Inr False \<Longrightarrow> py_lt c b = Inr False \<Longrightarrow> py_lt c a = Inr False"
  by (cases a; cases b; cases c; auto)

lemma py_lt_False:
  assumes "py_lt a b \<noteq> Inl TypeError" and "py_lt a b \<noteq> Inr True"
  shows "py_lt a b = Inr False"
proof (cases "py_lt a b")
  case (Inl err)
  with py_lt_Inl [OF Inl] assms(1) show ?thesis by simp
next
  case (Inr r)
  with assms(2) show ?thesis by (cases r) simp_all
qed

lemma set_py_insort: "set (py_insort x ys) = insert x (set ys)"
  by (induction ys) auto

lemma distinct_map_py_insort:
  "distinct (map f (py_insort x ys)) = distinct (map f (x # ys))"
  by (induction ys) (auto simp: set_py_insort)

lemma sorted_py_insort:
  assumes "\<forall>a \<in> set (x # ys). \<forall>b \<in> set (x # ys). py_lt (fst a) (fst b) \<noteq> Inl TypeError"
    and "sorted_wrt (\<lambda>p q. py_lt (fst q) (fst p) = Inr False) ys"
  shows "sorted_wrt (\<lambda>p q. py_lt (fst q) (fst p) = Inr False) (py_insort x ys)"
  using assms
proof (induction ys)
  case Nil
  then show ?case by simp
next
  case (Cons y ys)
  show ?case
  proof (cases "py_lt (fst y) (fst x) = Inr True")
    case True
    from Cons.prems have "sorted_wrt (\<lambda>p q. py_lt (fst q) (fst p) = Inr False) (py_insort x ys)"
      by (intro Cons.IH) auto
    moreover from py_lt_asym [OF True] have "py_lt (fst x) (fst y) = Inr False" .
    moreover from Cons.prems(2) have "\<forall>z \<in> set ys. py_lt (fst z) (fst y) = Inr False" by simp
    ultimately show ?thesis using True by (simp add: set_py_insort)
  next
    case False
    from Cons.prems(1) have "py_lt (fst y) (fst x) \<noteq> Inl TypeError" by simp
    from py_lt_False [OF this False] have xy: "py_lt (fst y) (fst x) = Inr False" .
    have "py_lt (fst z) (fst x) = Inr False" if "z \<in> set ys" for z
    proof -
      from Cons.prems(2) that have "py_lt (fst z) (fst y) = Inr False" by simp
      from py_lt_trans [OF xy this] show ?thesis .
    qed
    with xy Cons.prems(2) False show ?thesis by simp
  qed
qed

lemma set_py_sort: "set (foldr py_insort ps []) = set ps"
  by (induction ps) (simp_all add: set_py_insort)

lemma distinct_map_py_sort:
  "distinct (map f (foldr py_insort ps [])) = distinct (map f ps)"
  by (induction ps) (simp_all add: distinct_map_py_insort set_py_sort)

lemma length_py_sort: "length (foldr py_insort ps []) = length ps"
proof -
  have "length (py_insort x ys) = Suc (length ys)" for x :: "'a::linorder pyval \<times> 'b" and ys
    by (induction ys) simp_all
  then show ?thesis by (induction ps) simp_all
qed

lemma sorted_py_sort:
  assumes "\<forall>a \<in> set ps. \<forall>b \<in> set ps. py_lt (fst a) (fst b) \<noteq> Inl TypeError"
  shows "sorted_wrt (\<lambda>p q. py_lt (fst q) (fst p) = Inr False) (foldr py_insort ps [])"
  using assms
proof (induction ps)
  case Nil
  then show ?case by simp
next
  case (Cons x ps)
  from Cons.prems have "sorted_wrt (\<lambda>p q. py_lt (fst q) (fst p) = Inr False) (foldr py_insort ps [])"
    by (intro Cons.IH) auto
  moreover from Cons.prems
  have "\<forall>a \<in> set (x # foldr py_insort ps []). \<forall>b \<in> set (x # foldr py_insort ps []).
          py_lt (fst a) (fst b) \<noteq> Inl TypeError"
    by (simp add: set_py_sort)
  ultimately show ?case by (simp add: sorted_py_insort)
qed

lemma sorted_wrt_short: "length xs < 2 \<Longrightarrow> sorted_wrt R xs"
  by (cases xs) auto

lemma sort_by_created_Inr:
  assumes "sort_by_created cs = Inr r"
  shows "set r = set cs" and "length r = length cs"
    and "\<forall>c \<in> set r. c ''created'' \<noteq> None"
    and "distinct (map f r) = distinct (map f cs)"
    and "sorted_wrt (\<lambda>a b. py_lt (dict_get b ''created'' PNone) (dict_get a ''created'' PNone) = Inr False) r"
proof -
  let ?g = "\<lambda>c. the (c ''created'')"
  let ?R = "\<lambda>a b. py_lt (dict_get b ''created'' PNone) (dict_get a ''created'' PNone) = Inr False"
  from assms obtain ks where ks: "created_keys cs = Inr ks"
    by (auto simp: sort_by_created_def split: sum.splits)
  from created_keys_Inr [OF ks]
  have km: "ks = map ?g cs" and kn: "\<forall>c \<in> set cs. c ''created'' \<noteq> None"
    by simp_all
  let ?ps = "map (\<lambda>c. (?g c, c)) cs"
  have z: "zip ks cs = ?ps"
    unfolding km by (simp add: zip_map1 zip_same_conv_map)
  have every: "set r = set cs \<and> length r = length cs \<and>
        distinct (map f r) = distinct (map f cs) \<and> sorted_wrt ?R r"
  proof (cases "length cs < 2")
    case True
    with assms ks have "r = cs" by (simp add: sort_by_created_def)
    with True show ?thesis
      by (simp add: sorted_wrt_short)
  next
    case False
    with assms ks have cmp: "py_comparable ks" and r: "r = map snd (foldr py_insort ?ps [])"
      by (auto simp: sort_by_created_def z split: if_splits)
    have s: "set r = set cs"
      unfolding r by (simp add: set_py_sort image_image)
    have l: "length r = length cs"
      unfolding r by (simp add: length_py_sort)
    have "distinct (map f r) = distinct (map (f \<circ> snd) ?ps)"
      unfolding r by (simp add: distinct_map_py_sort)
    then have d: "distinct (map f r) = distinct (map f cs)"
      by (simp add: comp_def)
    from cmp have "\<forall>a \<in> set ?ps. \<forall>b \<in> set ?ps. py_lt (fst a) (fst b) \<noteq> Inl TypeError"
      by (auto simp: py_comparable_def list_all_iff km)
    then have "sorted_wrt (\<lambda>p q. py_lt (fst q) (fst p) = Inr False) (foldr py_insort ?ps [])"
      by (rule sorted_py_sort)
    moreover have "?R (snd p) (snd q)"
      if "p \<in> set (foldr py_insort ?ps [])" "q \<in> set (foldr py_insort ?ps [])"
        "py_lt (fst q) (fst p) = Inr False" for p q
    proof -
      have "fst x = dict_get (snd x) ''created'' PNone" if "x \<in> set ?ps" for x
        using that kn by (auto simp: dict_get_def)
      with that show ?thesis by (simp add: set_py_sort)
    qed
    ultimately have "sorted_wrt (\<lambda>p q. ?R (snd p) (snd q)) (foldr py_insort ?ps [])"
      by (rule sorted_wrt_mono_rel [rotated])
    then have "sorted_wrt ?R r"
      unfolding r by (simp add: sorted_wrt_map)
    with s l d show ?thesis
      by simp
  qed
  then show "set r = set cs" and "length r = length cs"
    and "distinct (map f r) = distinct (map f cs)" and "sorted_wrt ?R r"
    by simp_all
  with kn show "\<forall>c \<in> set r. c ''created'' \<noteq> None" by simp
qed

lemma attach_overview_other:
  "key \<noteq> ''course_display_name'' \<Longrightarrow> key \<noteq> ''course_organization'' \<Longrightarrow>
   attach_overview e ov c key = c key"
  by (simp add: attach_overview_def)

lemma passing_loop_lookup:
  assumes "passing_loop cs [] = Inr p" and "map_of p k = Some c"
  shows "filter (passing_for k) cs \<noteq> []" and "c = last (filter (passing_for k) cs)"
    and "passing_for k c"
proof -
  let ?f = "filter (passing_for k) cs"
  from passing_loop_map_of [OF assms(1), of k] assms(2)
  have *: "?f \<noteq> [] \<and> c = last ?f"
    unfolding passing_for_def by (auto split: list.splits)
  then show "?f \<noteq> []" and "c = last ?f" by blast+
  from * have "c \<in> set ?f" using last_in_set by blast
  then show "passing_for k c" by simp
qed

lemma get_certificates_for_user_Inr:
  assumes "CertificatesListView_get_certificates_for_user e uname = Inr certs"
  obtains p v where "passing_loop (get_certificates_for_user e uname) [] = Inr p"
    and "viewable_loop e p (get_from_ids_if_exists e (map fst p)) [] = Inr v"
    and "sort_by_created v = Inr certs"
  using assms unfolding CertificatesListView_get_certificates_for_user_def
  by (auto simp: Let_def split: sum.splits)

lemma viewable_member:
  assumes p: "passing_loop cs [] = Inr p"
    and v: "viewable_loop e p items [] = Inr v"
    and c: "c \<in> set v"
  shows "\<exists>k ov. (k, ov) \<in> set items \<and> certificates_viewable_for_course e ov \<and>
           filter (passing_for k) cs \<noteq> [] \<and>
           c = attach_overview e ov (last (filter (passing_for k) cs)) \<and>
           passing_for k c"
proof -
  from viewable_loop_eq [OF v] c obtain k ov where
    m: "(k, ov) \<in> set items" "certificates_viewable_for_course e ov"
       "c = attach_overview e ov (the (map_of p k))" and "map_of p k \<noteq> None"
    by auto
  then obtain c0 where c0: "map_of p k = Some c0" by auto
  note l = passing_loop_lookup [OF p c0]
  from l(3) m(3) c0 have "passing_for k c"
    by (simp add: passing_for_def attach_overview_other dict_get_def)
  with m(1,2) l(1) m(3) c0 l(2) show ?thesis by auto
qed

lemma viewable_keys:
  assumes p: "passing_loop cs [] = Inr p"
    and v: "viewable_loop e p items [] = Inr v"
  shows "map (\<lambda>c. c ''course_key'') v =
         map (\<lambda>(k, ov). Some k) (filter (\<lambda>(k, ov). certificates_viewable_for_course e ov) items)"
proof -
  have "\<And>k ov. (k, ov) \<in> set items \<Longrightarrow> certificates_viewable_for_course e ov \<Longrightarrow>
          attach_overview e ov (the (map_of p k)) ''course_key'' = Some k"
  proof -
    fix k ov assume "(k, ov) \<in> set items" "certificates_viewable_for_course e ov"
    with viewable_loop_eq [OF v] obtain c0 where c0: "map_of p k = Some c0" by auto
    from passing_loop_lookup(3) [OF p c0] have "c0 ''course_key'' = Some k"
      by (simp add: passing_for_def)
    with c0 show "attach_overview e ov (the (map_of p k)) ''course_key'' = Some k"
      by (simp add: attach_overview_other)
  qed
  with viewable_loop_eq [OF v] show ?thesis by auto
qed

lemma distinct_map_Some: "distinct ys \<Longrightarrow> distinct (map Some ys)"
  by (simp add: distinct_map)

lemma viewable_distinct:
  assumes p: "passing_loop cs [] = Inr p"
    and v: "viewable_loop e p items [] = Inr v"
    and d: "distinct (map fst items)"
  shows "distinct (map (\<lambda>c. c ''course_key'') v)"
proof -
  let ?F = "filter (\<lambda>(k, ov). certificates_viewable_for_course e ov) items"
  have "map (\<lambda>(k, ov). Some k) ?F = map Some (map fst ?F)"
    by (simp add: case_prod_unfold)
  with viewable_keys [OF p v] have eq: "map (\<lambda>c. c ''course_key'') v = map Some (map fst ?F)"
    by simp
  from d have "distinct (map fst ?F)"
    by (rule distinct_map_filter)
  then have "distinct (map Some (map fst ?F))"
    by (rule distinct_map_Some)
  with eq show ?thesis by simp
qed

lemmas demo_defs = demo_env_def demo_request_def demo_users_def demo_overviews_def
  demo_certificates_def demo_certificate_def

section \<open>The single-certificate endpoint\<close>

text \<open>
  C4. When the course identifier of the request does not parse as a course key, the
  response is a 404 with the body \<^verbatim>\<open>{"error_code": "course_id_not_valid"}\<close>, and no
  certificate lookup is performed: the effects of the handler hold no lookup, and the
  result is the same whatever the lookup function is.
\<close>

theorem detail_invalid_course_id:
  assumes "CourseKey_from_string e cid = None"
  shows "fst (CertificatesDetailView_get e request uname cid) =
           \<lparr>status = 404, data = Dict [(''error_code'', PStr ''course_id_not_valid'')]\<rparr>
       \<and> (\<forall>u k. CertificateLookup u k \<notin> set (snd (CertificatesDetailView_get e request uname cid)))
       \<and> (\<forall>lookup. CertificatesDetailView_get (e\<lparr>get_certificate_for_user := lookup\<rparr>) request uname cid
             = CertificatesDetailView_get e request uname cid)"
  using assms by (simp add: CertificatesDetailView_get_def Response_def)

theorem detail_invalid_course_id_witness:
  "CourseKey_from_string demo_env ''not a course key'' = None
   \<and> fst (CertificatesDetailView_get demo_env (demo_request ''bob'') ''bob'' ''not a course key'') =
       \<lparr>status = 404, data = Dict [(''error_code'', PStr ''course_id_not_valid'')]\<rparr>
   \<and> snd (CertificatesDetailView_get demo_env (demo_request ''bob'') ''bob'' ''not a course key'') =
       [LogWarning (''Course ID string '' @ [CHR 0x22] @ ''not a course key'' @ [CHR 0x22] @ '' is not valid'')]"
proof -
  have h: "CourseKey_from_string demo_env ''not a course key'' = None"
    by (simp add: demo_defs)
  from detail_invalid_course_id [OF h, of "demo_request ''bob''" "''bob''"] h
  show ?thesis by (simp add: CertificatesDetailView_get_def)
qed

text \<open>
  C5. When the course identifier parses and \<^verbatim>\<open>get_certificate_for_user\<close> returns
  \<^verbatim>\<open>None\<close>, the response is a 404 with the body
  \<^verbatim>\<open>{"error_code": "no_certificate_for_user"}\<close>, which differs from the body of every
  response to an identifier that does not parse.
\<close>

theorem detail_no_certificate:
  assumes "CourseKey_from_string e cid = Some course_key"
    and "get_certificate_for_user e uname course_key = None"
  shows "fst (CertificatesDetailView_get e request uname cid) =
           \<lparr>status = 404, data = Dict [(''error_code'', PStr ''no_certificate_for_user'')]\<rparr>
       \<and> (\<forall>e' request' uname' cid'. CourseKey_from_string e' cid' = None \<longrightarrow>
             data (fst (CertificatesDetailView_get e' request' uname' cid')) \<noteq>
             data (fst (CertificatesDetailView_get e request uname cid)))"
  using assms by (simp add: CertificatesDetailView_get_def Response_def)

theorem detail_no_certificate_witness:
  "CourseKey_from_string demo_env ''edX/DemoX/Demo_Course'' = Some ''edX/DemoX/Demo_Course''
   \<and> get_certificate_for_user demo_env ''alice'' ''edX/DemoX/Demo_Course'' = None
   \<and> fst (CertificatesDetailView_get demo_env (demo_request ''alice'') ''alice'' ''edX/DemoX/Demo_Course'') =
       \<lparr>status = 404, data = Dict [(''error_code'', PStr ''no_certificate_for_user'')]\<rparr>
   \<and> data (fst (CertificatesDetailView_get demo_env (demo_request ''alice'') ''alice'' ''not a course key'')) \<noteq>
     data (fst (CertificatesDetailView_get demo_env (demo_request ''alice'') ''alice'' ''edX/DemoX/Demo_Course''))"
proof -
  have h1: "CourseKey_from_string demo_env ''edX/DemoX/Demo_Course'' = Some ''edX/DemoX/Demo_Course''"
    by (simp add: demo_defs)
  have h2: "get_certificate_for_user demo_env ''alice'' ''edX/DemoX/Demo_Course'' = None"
    by (simp add: demo_defs)
  have h3: "CourseKey_from_string demo_env ''not a course key'' = None"
    by (simp add: demo_defs)
  from detail_no_certificate [OF h1 h2, of "demo_request ''alice''"] h1 h2 h3
  show ?thesis by blast
qed

text \<open>
  C2, as amended. When the course identifier parses and a certificate record exists, the
  response is a 200 whose body is a record of eight fields (not nine): \<^verbatim>\<open>username\<close>,
  \<^verbatim>\<open>course_id\<close>, \<^verbatim>\<open>certificate_type\<close>, \<^verbatim>\<open>created_date\<close>, \<^verbatim>\<open>status\<close>,
  \<^verbatim>\<open>is_passing\<close>, \<^verbatim>\<open>download_url\<close> and \<^verbatim>\<open>grade\<close>, each read from the certificate
  record (\<^verbatim>\<open>None\<close> where the record lacks the key), the course key rendered as text.
\<close>

theorem detail_certificate_found:
  assumes "CourseKey_from_string e cid = Some course_key"
    and "get_certificate_for_user e uname course_key = Some user_cert"
  shows "status (fst (CertificatesDetailView_get e request uname cid)) = 200
       \<and> data (fst (CertificatesDetailView_get e request uname cid)) = Dict
           [(''username'', dict_get user_cert ''username'' PNone),
            (''course_id'', PStr (text_type e (dict_get user_cert ''course_key'' PNone))),
            (''certificate_type'', dict_get user_cert ''type'' PNone),
            (''created_date'', dict_get user_cert ''created'' PNone),
            (''status'', dict_get user_cert ''status'' PNone),
            (''is_passing'', dict_get user_cert ''is_passing'' PNone),
            (''download_url'', dict_get user_cert ''download_url'' PNone),
            (''grade'', dict_get user_cert ''grade'' PNone)]
       \<and> length (body_keys (data (fst (CertificatesDetailView_get e request uname cid)))) = 8
       \<and> distinct (body_keys (data (fst (CertificatesDetailView_get e request uname cid))))"
  using assms by (simp add: CertificatesDetailView_get_def Response_def Response_ok_def)

theorem detail_certificate_found_witness:
  "CourseKey_from_string demo_env ''MITx/000/Perm_course'' = Some ''MITx/000/Perm_course''
   \<and> get_certificate_for_user demo_env ''bob'' ''MITx/000/Perm_course'' =
       Some (demo_certificate ''MITx/000/Perm_course'' 10 True)
   \<and> fst (CertificatesDetailView_get demo_env (demo_request ''bob'') ''bob'' ''MITx/000/Perm_course'') =
       \<lparr>status = 200, data = Dict
           [(''username'', PStr ''bob''),
            (''course_id'', PStr ''MITx/000/Perm_course''),
            (''certificate_type'', PStr ''verified''),
            (''created_date'', PTime 10),
            (''status'', PStr ''downloadable''),
            (''is_passing'', PBool True),
            (''download_url'', PStr ''http://www.example.com/cert.pdf''),
            (''grade'', PStr ''0.98'')]\<rparr>"
proof -
  have h1: "CourseKey_from_string demo_env ''MITx/000/Perm_course'' = Some ''MITx/000/Perm_course''"
    by (simp add: demo_defs)
  have h2: "get_certificate_for_user demo_env ''bob'' ''MITx/000/Perm_course'' =
       Some (demo_certificate ''MITx/000/Perm_course'' 10 True)"
    by (simp add: demo_env_def demo_certificates_def) (simp add: demo_certificate_def)
  have h3: "text_type demo_env = demo_text_type" by (simp add: demo_env_def)
  have "r = \<lparr>status = status r, data = data r\<rparr>" for r :: "string response" by simp
  from this [of "fst (CertificatesDetailView_get demo_env (demo_request ''bob'') ''bob'' ''MITx/000/Perm_course'')"]
    detail_certificate_found [OF h1 h2, of "demo_request ''bob''"] h1 h2
  show ?thesis by (simp add: h3 dict_get_def demo_certificate_def)
qed

text \<open>
  C2, as stated, fails: the body of the 200 response for a certificate of the small
  platform does not have nine fields.
\<close>

theorem detail_nine_fields_counterexample:
  "\<not> (status (fst (CertificatesDetailView_get demo_env (demo_request ''bob'') ''bob'' ''MITx/000/Perm_course'')) = 200
      \<and> length (body_keys (data (fst (CertificatesDetailView_get demo_env (demo_request ''bob'') ''bob''
            ''MITx/000/Perm_course'')))) = 9)"
proof -
  have h1: "CourseKey_from_string demo_env ''MITx/000/Perm_course'' = Some ''MITx/000/Perm_course''"
    by (simp add: demo_defs)
  have h2: "get_certificate_for_user demo_env ''bob'' ''MITx/000/Perm_course'' =
       Some (demo_certificate ''MITx/000/Perm_course'' 10 True)"
    by (simp add: demo_env_def demo_certificates_def) (simp add: demo_certificate_def)
  show ?thesis
    by (simp add: CertificatesDetailView_get_def h1 h2 Response_def Response_ok_def)
qed

section \<open>The small platform, evaluated\<close>

lemma demo_listing:
  "CertificatesListView_get_certificates_for_user demo_env ''bob'' = Inr demo_viewable_certificates"
  by (simp add: CertificatesListView_get_certificates_for_user_def demo_defs dict_get_def
      dict_index_def attach_overview_def sort_by_created_def py_comparable_def
      demo_viewable_certificates_def)

lemma demo_owner:
  "CertificatesListView_viewable_by_requestor demo_env (demo_request ''bob'') ''bob'' = Inr True"
  by (simp add: CertificatesListView_viewable_by_requestor_def demo_defs)

lemma demo_response:
  "CertificatesListView_get demo_env (demo_request ''bob'') ''bob'' =
     Inr (Response_ok (Array (map (list_entry demo_env) demo_viewable_certificates)))"
  by (simp add: CertificatesListView_get_def demo_owner demo_listing)

lemma demo_overviews_dict: "\<forall>ks. distinct (map fst (get_from_ids_if_exists demo_env ks))"
proof -
  have "distinct (map fst demo_overviews)" by (simp add: demo_overviews_def)
  then show ?thesis by (simp add: demo_env_def distinct_map_filter)
qed

lemma demo_entries:
  "map (\<lambda>entry. (dict_get (map_of entry) ''course_id'' PNone,
                  dict_get (map_of entry) ''is_passing'' PNone,
                  dict_get (map_of entry) ''created_date'' PNone))
     (body_entries (data (Response_ok (Array (map (list_entry demo_env) demo_viewable_certificates))))) =
   [(PStr ''MITx/000/Perm_course'', PBool True, PTime 10),
    (PStr ''edX/DemoX/Demo_Course'', PBool True, PTime 40)]"
  by (simp add: Response_ok_def Response_def demo_viewable_certificates_def list_entry_def
      attach_overview_def demo_certificate_def dict_get_def demo_env_def)

lemma demo_two_passing:
  "length (filter (passing_for (PKey ''edX/DemoX/Demo_Course''))
     (get_certificates_for_user demo_env ''bob'')) = 2"
  by (simp add: demo_defs passing_for_def dict_get_def)

text \<open>
  The sort on keys that are not datetimes with a time zone: two strings are put in order,
  a datetime with a time zone and one without do not compare.
\<close>

lemma sort_by_created_strings:
  "sort_by_created [[''created'' \<mapsto> PStr ''b''], [''created'' \<mapsto> PStr ''a'' :: string pyval]] =
     Inr [[''created'' \<mapsto> PStr ''a''], [''created'' \<mapsto> PStr ''b'']]"
  by (simp add: sort_by_created_def dict_index_def py_comparable_def less_char_def)

lemma sort_by_created_mixed_zones:
  "sort_by_created [[''created'' \<mapsto> PTime 1], [''created'' \<mapsto> PNaiveTime 2 :: string pyval]] =
     Inl TypeError"
  by (simp add: sort_by_created_def dict_index_def py_comparable_def)

section \<open>The certificate list endpoint\<close>

lemma list_get_Inr:
  assumes "CertificatesListView_get e request uname = Inr resp"
  shows "status resp = 200"
    and "CertificatesListView_viewable_by_requestor e request uname = Inr True \<Longrightarrow>
         \<exists>certs. CertificatesListView_get_certificates_for_user e uname = Inr certs \<and>
                 data resp = Array (map (list_entry e) certs)"
    and "CertificatesListView_viewable_by_requestor e request uname \<noteq> Inr True \<Longrightarrow>
         data resp = Array []"
  using assms
  by (auto simp: CertificatesListView_get_def Response_ok_def Response_def
      split: if_splits sum.splits)

lemma list_entry_values:
  "map_of (list_entry e c) ''is_passing'' = Some (dict_get c ''is_passing'' PNone)"
  "map_of (list_entry e c) ''created_date'' = Some (dict_get c ''created'' PNone)"
  "map_of (list_entry e c) ''modified_date'' = Some (dict_get c ''modified'' PNone)"
  "map_of (list_entry e c) ''course_id'' = Some (PStr (text_type e (dict_get c ''course_key'' PNone)))"
  by (simp_all add: list_entry_def)

text \<open>
  C1. When the requestor may view the list and the handler returns a response, the response
  is a 200 whose entries are made, in order, from the certificates that
  \<^verbatim>\<open>_get_certificates_for_user\<close> returns. Each certificate, and each entry of the response,
  has a true \<^verbatim>\<open>is_passing\<close>, and its course is the key of a course overview for which
  \<^verbatim>\<open>certificates_viewable_for_course\<close> holds. The entries are sorted ascending by the
  creation date: of two entries, the \<^verbatim>\<open>created_date\<close> of the later one compares with that
  of the earlier one, and is not less.
\<close>

theorem list_passing_viewable_sorted:
  assumes "CertificatesListView_viewable_by_requestor e request uname = Inr True"
    and "CertificatesListView_get e request uname = Inr resp"
  shows "status resp = 200 \<and>
         (\<exists>certs passing.
            CertificatesListView_get_certificates_for_user e uname = Inr certs \<and>
            passing_loop (get_certificates_for_user e uname) [] = Inr passing \<and>
            data resp = Array (map (list_entry e) certs) \<and>
            (\<forall>c \<in> set certs.
               truthy (dict_get c ''is_passing'' (PBool False)) \<and>
               c ''created'' \<noteq> None \<and>
               (\<exists>k ov. c ''course_key'' = Some k \<and>
                  (k, ov) \<in> set (get_from_ids_if_exists e (map fst passing)) \<and>
                  certificates_viewable_for_course e ov)) \<and>
            (\<forall>entry \<in> set (body_entries (data resp)).
               truthy (dict_get (map_of entry) ''is_passing'' PNone) \<and>
               (\<exists>k ov. map_of entry ''course_id'' = Some (PStr (text_type e k)) \<and>
                  (k, ov) \<in> set (get_from_ids_if_exists e (map fst passing)) \<and>
                  certificates_viewable_for_course e ov))) \<and>
         sorted_wrt
           (\<lambda>a b. py_lt (dict_get (map_of b) ''created_date'' PNone)
                         (dict_get (map_of a) ''created_date'' PNone) = Inr False)
           (body_entries (data resp))"
proof -
  from list_get_Inr [OF assms(2)] assms(1) obtain certs where
    certs: "CertificatesListView_get_certificates_for_user e uname = Inr certs"
    and resp: "status resp = 200" "data resp = Array (map (list_entry e) certs)"
    by auto
  from certs obtain p v where
    p: "passing_loop (get_certificates_for_user e uname) [] = Inr p"
    and v: "viewable_loop e p (get_from_ids_if_exists e (map fst p)) [] = Inr v"
    and s: "sort_by_created v = Inr certs"
    by (rule get_certificates_for_user_Inr)
  note srt = sort_by_created_Inr [OF s]
  have cert: "truthy (dict_get c ''is_passing'' (PBool False)) \<and> c ''created'' \<noteq> None \<and>
        (\<exists>k ov. c ''course_key'' = Some k \<and>
           (k, ov) \<in> set (get_from_ids_if_exists e (map fst p)) \<and>
           certificates_viewable_for_course e ov)" if "c \<in> set certs" for c
  proof -
    from that srt(1) have "c \<in> set v" by simp
    from viewable_member [OF p v this] obtain k ov where
      m: "(k, ov) \<in> set (get_from_ids_if_exists e (map fst p))"
         "certificates_viewable_for_course e ov" "passing_for k c"
      by blast
    from srt(3) that have "c ''created'' \<noteq> None" by simp
    with m show ?thesis unfolding passing_for_def by blast
  qed
  have entry: "truthy (dict_get (map_of entry) ''is_passing'' PNone) \<and>
        (\<exists>k ov. map_of entry ''course_id'' = Some (PStr (text_type e k)) \<and>
           (k, ov) \<in> set (get_from_ids_if_exists e (map fst p)) \<and>
           certificates_viewable_for_course e ov)"
    if "entry \<in> set (body_entries (data resp))" for entry
  proof -
    from that resp(2) obtain c where c: "c \<in> set certs" "entry = list_entry e c" by auto
    from cert [OF c(1)] obtain k ov where
      t: "truthy (dict_get c ''is_passing'' (PBool False))"
      and k: "c ''course_key'' = Some k" "(k, ov) \<in> set (get_from_ids_if_exists e (map fst p))"
        "certificates_viewable_for_course e ov"
      by blast
    from t have "truthy (dict_get c ''is_passing'' PNone)"
      by (cases "c ''is_passing''") (simp_all add: dict_get_def)
    then have "truthy (dict_get (map_of entry) ''is_passing'' PNone)"
      unfolding c(2) by (simp add: list_entry_values(1) dict_get_def)
    moreover from k(1) have "map_of entry ''course_id'' = Some (PStr (text_type e k))"
      unfolding c(2) by (simp add: list_entry_values(4) dict_get_def)
    ultimately show ?thesis using k(2,3) by blast
  qed
  have "sorted_wrt
           (\<lambda>a b. py_lt (dict_get (map_of b) ''created_date'' PNone)
                         (dict_get (map_of a) ''created_date'' PNone) = Inr False)
           (map (list_entry e) certs)"
    using srt(5) by (simp add: sorted_wrt_map list_entry_values(2) dict_get_def)
  then have sorted: "sorted_wrt
           (\<lambda>a b. py_lt (dict_get (map_of b) ''created_date'' PNone)
                         (dict_get (map_of a) ''created_date'' PNone) = Inr False)
           (body_entries (data resp))"
    by (simp add: resp(2))
  from cert have certs_ok: "\<forall>c \<in> set certs.
               truthy (dict_get c ''is_passing'' (PBool False)) \<and>
               c ''created'' \<noteq> None \<and>
               (\<exists>k ov. c ''course_key'' = Some k \<and>
                  (k, ov) \<in> set (get_from_ids_if_exists e (map fst p)) \<and>
                  certificates_viewable_for_course e ov)"
    by (rule ballI)
  from entry have entries_ok: "\<forall>entry \<in> set (body_entries (data resp)).
               truthy (dict_get (map_of entry) ''is_passing'' PNone) \<and>
               (\<exists>k ov. map_of entry ''course_id'' = Some (PStr (text_type e k)) \<and>
                  (k, ov) \<in> set (get_from_ids_if_exists e (map fst p)) \<and>
                  certificates_viewable_for_course e ov)"
    by (rule ballI)
  have "\<exists>certs passing.
            CertificatesListView_get_certificates_for_user e uname = Inr certs \<and>
            passing_loop (get_certificates_for_user e uname) [] = Inr passing \<and>
            data resp = Array (map (list_entry e) certs) \<and>
            (\<forall>c \<in> set certs.
               truthy (dict_get c ''is_passing'' (PBool False)) \<and>
               c ''created'' \<noteq> None \<and>
               (\<exists>k ov. c ''course_key'' = Some k \<and>
                  (k, ov) \<in> set (get_from_ids_if_exists e (map fst passing)) \<and>
                  certificates_viewable_for_course e ov)) \<and>
            (\<forall>entry \<in> set (body_entries (data resp)).
               truthy (dict_get (map_of entry) ''is_passing'' PNone) \<and>
               (\<exists>k ov. map_of entry ''course_id'' = Some (PStr (text_type e k)) \<and>
                  (k, ov) \<in> set (get_from_ids_if_exists e (map fst passing)) \<and>
                  certificates_viewable_for_course e ov))"
    by (rule exI [of _ certs], rule exI [of _ p])
       (rule conjI [OF certs conjI [OF p conjI [OF resp(2) conjI [OF certs_ok entries_ok]]]])
  from conjI [OF resp(1) conjI [OF this sorted]] show ?thesis .
qed

theorem list_passing_viewable_sorted_witness:
  "CertificatesListView_viewable_by_requestor demo_env (demo_request ''bob'') ''bob'' = Inr True
   \<and> CertificatesListView_get demo_env (demo_request ''bob'') ''bob'' =
       Inr (Response_ok (Array (map (list_entry demo_env) demo_viewable_certificates)))
   \<and> map (\<lambda>entry. (dict_get (map_of entry) ''course_id'' PNone,
                     dict_get (map_of entry) ''is_passing'' PNone,
                     dict_get (map_of entry) ''created_date'' PNone))
       (body_entries (data (Response_ok (Array (map (list_entry demo_env) demo_viewable_certificates))))) =
     [(PStr ''MITx/000/Perm_course'', PBool True, PTime 10),
      (PStr ''edX/DemoX/Demo_Course'', PBool True, PTime 40)]
   \<and> sorted_wrt
       (\<lambda>a b. py_lt (dict_get (map_of b) ''created_date'' PNone)
                     (dict_get (map_of a) ''created_date'' PNone) = Inr False)
       (body_entries (data (Response_ok (Array (map (list_entry demo_env) demo_viewable_certificates)))))"
proof -
  note h1 = demo_owner and h2 = demo_response
  from list_passing_viewable_sorted [OF h1 h2]
  have "sorted_wrt
       (\<lambda>a b. py_lt (dict_get (map_of b) ''created_date'' PNone)
                     (dict_get (map_of a) ''created_date'' PNone) = Inr False)
       (body_entries (data (Response_ok (Array (map (list_entry demo_env) demo_viewable_certificates)))))"
    by (rule conjunct2 [THEN conjunct2])
  then show ?thesis
    by (rule conjI [OF h1 conjI [OF h2 conjI [OF demo_entries]]])
qed

text \<open>
  C8. In a response of the list endpoint no two certificates have the same course key, and
  each is the last of the certificates of \<^verbatim>\<open>get_certificates_for_user\<close> that are passing
  and of its course, with the name and the organization of the course attached. The course
  overviews come as the items of a dictionary: no key twice.
\<close>

theorem list_one_certificate_per_course:
  assumes "CertificatesListView_get e request uname = Inr resp"
    and "\<forall>ks. distinct (map fst (get_from_ids_if_exists e ks))"
  shows "\<exists>certs.
           data resp = Array (map (list_entry e) certs) \<and>
           distinct (map (\<lambda>c. c ''course_key'') certs) \<and>
           (\<forall>c \<in> set certs. \<exists>k ov.
              c ''course_key'' = Some k \<and>
              filter (passing_for k) (get_certificates_for_user e uname) \<noteq> [] \<and>
              c = attach_overview e ov
                    (last (filter (passing_for k) (get_certificates_for_user e uname))))"
proof (cases "CertificatesListView_viewable_by_requestor e request uname = Inr True")
  case False
  with list_get_Inr(3) [OF assms(1)] have "data resp = Array (map (list_entry e) [])" by simp
  then show ?thesis by (intro exI [of _ "[]"]) simp
next
  case True
  with list_get_Inr(2) [OF assms(1)] obtain certs where
    certs: "CertificatesListView_get_certificates_for_user e uname = Inr certs"
    and resp: "data resp = Array (map (list_entry e) certs)"
    by auto
  from certs obtain p v where
    p: "passing_loop (get_certificates_for_user e uname) [] = Inr p"
    and v: "viewable_loop e p (get_from_ids_if_exists e (map fst p)) [] = Inr v"
    and s: "sort_by_created v = Inr certs"
    by (rule get_certificates_for_user_Inr)
  note srt = sort_by_created_Inr [OF s]
  from assms(2) have "distinct (map fst (get_from_ids_if_exists e (map fst p)))" by simp
  from viewable_distinct [OF p v this] srt(4) [of "\<lambda>c. c ''course_key''"]
  have d: "distinct (map (\<lambda>c. c ''course_key'') certs)" by simp
  have "\<exists>k ov. c ''course_key'' = Some k \<and>
          filter (passing_for k) (get_certificates_for_user e uname) \<noteq> [] \<and>
          c = attach_overview e ov
                (last (filter (passing_for k) (get_certificates_for_user e uname)))"
    if "c \<in> set certs" for c
  proof -
    from that srt(1) have "c \<in> set v" by simp
    from viewable_member [OF p v this] show ?thesis
      by (auto simp: passing_for_def)
  qed
  with resp d show ?thesis by blast
qed

theorem list_one_certificate_per_course_witness:
  "CertificatesListView_get demo_env (demo_request ''bob'') ''bob'' =
       Inr (Response_ok (Array (map (list_entry demo_env) demo_viewable_certificates)))
   \<and> (\<forall>ks. distinct (map fst (get_from_ids_if_exists demo_env ks)))
   \<and> length (filter (passing_for (PKey ''edX/DemoX/Demo_Course''))
        (get_certificates_for_user demo_env ''bob'')) = 2
   \<and> (\<exists>certs.
         data (Response_ok (Array (map (list_entry demo_env) demo_viewable_certificates))) =
           Array (map (list_entry demo_env) certs) \<and>
         distinct (map (\<lambda>c. c ''course_key'') certs) \<and>
         (\<forall>c \<in> set certs. \<exists>k ov.
            c ''course_key'' = Some k \<and>
            filter (passing_for k) (get_certificates_for_user demo_env ''bob'') \<noteq> [] \<and>
            c = attach_overview demo_env ov
                  (last (filter (passing_for k) (get_certificates_for_user demo_env ''bob'')))))"
proof -
  note h1 = demo_response and h2 = demo_overviews_dict
  show ?thesis
    by (rule conjI [OF h1 conjI [OF h2 conjI [OF demo_two_passing
          list_one_certificate_per_course [OF h1 h2]]]])
qed

text \<open>
  C10. Every entry of a response of the list endpoint has exactly eleven keys, all
  different: the ten that the docstring documents and \<^verbatim>\<open>modified_date\<close>, which the
  docstring does not have. The value of \<^verbatim>\<open>modified_date\<close> is the \<^verbatim>\<open>modified\<close> of the
  certificate, and \<^verbatim>\<open>course_id\<close> is the text of the certificate's course key.
\<close>

theorem list_entry_shape:
  assumes "CertificatesListView_get e request uname = Inr resp"
  shows "\<forall>entry \<in> set (body_entries (data resp)).
           length entry = 11 \<and> distinct (map fst entry) \<and>
           ''modified_date'' \<in> set (map fst entry) \<and>
           ''modified_date'' \<notin> set CertificatesListView_documented_keys \<and>
           set (map fst entry) = insert ''modified_date'' (set CertificatesListView_documented_keys) \<and>
           (\<exists>certs user_cert course_key.
              CertificatesListView_get_certificates_for_user e uname = Inr certs \<and>
              user_cert \<in> set certs \<and> entry = list_entry e user_cert \<and>
              map_of entry ''modified_date'' = Some (dict_get user_cert ''modified'' PNone) \<and>
              user_cert ''course_key'' = Some course_key \<and>
              map_of entry ''course_id'' = Some (PStr (text_type e course_key)))"
proof
  fix entry assume en: "entry \<in> set (body_entries (data resp))"
  have viewable: "CertificatesListView_viewable_by_requestor e request uname = Inr True"
  proof (rule ccontr)
    assume "\<not> ?thesis"
    with list_get_Inr(3) [OF assms] en show False by simp
  qed
  with list_get_Inr(2) [OF assms] obtain certs where
    certs: "CertificatesListView_get_certificates_for_user e uname = Inr certs"
    and resp: "data resp = Array (map (list_entry e) certs)"
    by auto
  from en resp obtain c where c: "c \<in> set certs" "entry = list_entry e c" by auto
  from certs obtain p v where
    p: "passing_loop (get_certificates_for_user e uname) [] = Inr p"
    and v: "viewable_loop e p (get_from_ids_if_exists e (map fst p)) [] = Inr v"
    and s: "sort_by_created v = Inr certs"
    by (rule get_certificates_for_user_Inr)
  from c(1) sort_by_created_Inr(1) [OF s] have "c \<in> set v" by simp
  from viewable_member [OF p v this] obtain k where k: "c ''course_key'' = Some k"
    by (auto simp: passing_for_def)
  have shape: "length (list_entry e c) = 11" "distinct (map fst (list_entry e c))"
    "''modified_date'' \<in> set (map fst (list_entry e c))"
    "''modified_date'' \<notin> set CertificatesListView_documented_keys"
    "set (map fst (list_entry e c)) = insert ''modified_date'' (set CertificatesListView_documented_keys)"
    by (auto simp: list_entry_def CertificatesListView_documented_keys_def)
  have vals: "map_of (list_entry e c) ''modified_date'' = Some (dict_get c ''modified'' PNone)"
    "map_of (list_entry e c) ''course_id'' = Some (PStr (text_type e k))"
    using k by (simp_all add: list_entry_def dict_get_def)
  from shape vals certs c k
  show "length entry = 11 \<and> distinct (map fst entry) \<and>
           ''modified_date'' \<in> set (map fst entry) \<and>
           ''modified_date'' \<notin> set CertificatesListView_documented_keys \<and>
           set (map fst entry) = insert ''modified_date'' (set CertificatesListView_documented_keys) \<and>
           (\<exists>certs user_cert course_key.
              CertificatesListView_get_certificates_for_user e uname = Inr certs \<and>
              user_cert \<in> set certs \<and> entry = list_entry e user_cert \<and>
              map_of entry ''modified_date'' = Some (dict_get user_cert ''modified'' PNone) \<and>
              user_cert ''course_key'' = Some course_key \<and>
              map_of entry ''course_id'' = Some (PStr (text_type e course_key)))"
    by blast
qed

theorem list_entry_shape_witness:
  "CertificatesListView_get demo_env (demo_request ''bob'') ''bob'' =
       Inr (Response_ok (Array (map (list_entry demo_env) demo_viewable_certificates)))
   \<and> length (body_entries (data (Response_ok
        (Array (map (list_entry demo_env) demo_viewable_certificates))))) = 2
   \<and> length (list_entry demo_env (hd demo_viewable_certificates)) = 11
   \<and> map_of (list_entry demo_env (hd demo_viewable_certificates)) ''modified_date'' = Some (PTime 11)
   \<and> map_of (list_entry demo_env (hd demo_viewable_certificates)) ''course_id'' =
       Some (PStr ''MITx/000/Perm_course'')"
proof -
  let ?c = "hd demo_viewable_certificates"
  note h = demo_response
  have n: "length (body_entries (data (Response_ok
        (Array (map (list_entry demo_env) demo_viewable_certificates))))) = 2"
    by (simp add: Response_ok_def Response_def demo_viewable_certificates_def)
  have m: "list_entry demo_env ?c \<in> set (body_entries (data (Response_ok
        (Array (map (list_entry demo_env) demo_viewable_certificates)))))"
    by (simp add: Response_ok_def Response_def demo_viewable_certificates_def)
  from list_entry_shape [OF h, rule_format, OF m]
  have l: "length (list_entry demo_env ?c) = 11" by (rule conjunct1)
  have v: "map_of (list_entry demo_env ?c) ''modified_date'' = Some (PTime 11)"
    "map_of (list_entry demo_env ?c) ''course_id'' = Some (PStr ''MITx/000/Perm_course'')"
    by (simp_all add: list_entry_def attach_overview_def demo_certificate_def dict_get_def
        demo_env_def demo_viewable_certificates_def)
  show ?thesis
    by (rule conjI [OF h conjI [OF n conjI [OF l conjI [OF v(1) v(2)]]]])
qed

text \<open>
  A requestor who is not the owner and not staff, asking for a user whose profile does not
  show \<^verbatim>\<open>course_certificates\<close>, gets a 200 with the empty list.
\<close>

lemma list_unauthorized_with_profile:
  assumes "User_objects_get e uname = Some u"
    and "profile u = Some user_profile"
    and "username (user request) \<noteq> uname"
    and "\<not> is_staff (user request)"
    and "''course_certificates'' \<notin> set (visible_fields e user_profile u)"
  shows "CertificatesListView_get e request uname = Inr \<lparr>status = 200, data = Array []\<rparr>"
  using assms
  by (simp add: CertificatesListView_get_def CertificatesListView_viewable_by_requestor_def
      Response_ok_def Response_def)

text \<open>For a target user without a profile row the handler raises, whoever asks.\<close>

lemma list_profile_missing:
  assumes "User_objects_get e uname = Some u" and "profile u = None"
  shows "CertificatesListView_get e request uname = Inl RelatedObjectDoesNotExist"
  using assms
  by (simp add: CertificatesListView_get_def CertificatesListView_viewable_by_requestor_def)

text \<open>
  C3. The claim: when the requestor is not the owner and not staff, and the profile of the
  target user does not expose certificates, the response is a 200 with the empty list,
  never an error. The code: \<^verbatim>\<open>alice\<close>, who is not staff, asks for the certificates of
  \<^verbatim>\<open>carol\<close>, who has no profile row and so exposes nothing; reading \<^verbatim>\<open>user.profile\<close>
  raises \<^verbatim>\<open>RelatedObjectDoesNotExist\<close> and the handler returns no response.
\<close>

theorem list_unauthorized_profile_missing_raises:
  "User_objects_get demo_env ''carol'' = Some \<lparr>username = ''carol'', is_staff = False, profile = None\<rparr>
   \<and> username (user (demo_request ''alice'')) \<noteq> ''carol''
   \<and> \<not> is_staff (user (demo_request ''alice''))
   \<and> CertificatesListView_viewable_by_requestor demo_env (demo_request ''alice'') ''carol'' =
       Inl RelatedObjectDoesNotExist
   \<and> CertificatesListView_get demo_env (demo_request ''alice'') ''carol'' =
       Inl RelatedObjectDoesNotExist
   \<and> CertificatesListView_get demo_env (demo_request ''alice'') ''nobody'' =
       Inr \<lparr>status = 200, data = Array []\<rparr>"
  by (simp add: CertificatesListView_get_def CertificatesListView_viewable_by_requestor_def
      demo_defs Response_ok_def Response_def)



section \<open>The proctored-exam permission, checked\<close>

text \<open>
  C6. Without a backend in the context: a user with no enrollment in the course is denied,
  so are the modes \<^verbatim>\<open>audit\<close> and \<^verbatim>\<open>no-id-professional\<close>; the modes \<^verbatim>\<open>verified\<close>,
  \<^verbatim>\<open>masters\<close> and \<^verbatim>\<open>professional\<close> are allowed; and so every row of the data of
  \<^verbatim>\<open>test_proctoring_perm\<close> has the answer that the test expects.
\<close>

theorem proctoring_perm_by_mode:
  "\<not> can_take_proctored_exam backends (unenroll en u course) u
        \<lparr>exam_course_id = course, exam_backend = None, exam_is_proctored = flag\<rparr>
   \<and> \<not> can_take_proctored_exam backends (enroll en u course ''audit'') u
        \<lparr>exam_course_id = course, exam_backend = None, exam_is_proctored = flag\<rparr>
   \<and> \<not> can_take_proctored_exam backends (enroll en u course ''no-id-professional'') u
        \<lparr>exam_course_id = course, exam_backend = None, exam_is_proctored = flag\<rparr>
   \<and> can_take_proctored_exam backends (enroll en u course ''verified'') u
        \<lparr>exam_course_id = course, exam_backend = None, exam_is_proctored = flag\<rparr>
   \<and> can_take_proctored_exam backends (enroll en u course ''masters'') u
        \<lparr>exam_course_id = course, exam_backend = None, exam_is_proctored = flag\<rparr>
   \<and> can_take_proctored_exam backends (enroll en u course ''professional'') u
        \<lparr>exam_course_id = course, exam_backend = None, exam_is_proctored = flag\<rparr>
   \<and> list_all (\<lambda>(mode, should_have_perm). test_proctoring_perm backends en u mode = should_have_perm)
        test_proctoring_perm_data"
  by (simp add: can_take_proctored_exam_def enroll_def unenroll_def test_proctoring_perm_def
      test_proctoring_perm_data_def test_setUp_def)

theorem proctoring_perm_by_mode_witness:
  "\<not> test_proctoring_perm test_honor_backends Map.empty ''user'' None
   \<and> \<not> test_proctoring_perm test_honor_backends Map.empty ''user'' (Some ''audit'')
   \<and> test_proctoring_perm test_honor_backends Map.empty ''user'' (Some ''verified'')
   \<and> test_proctoring_perm test_honor_backends Map.empty ''user'' (Some ''masters'')
   \<and> test_proctoring_perm test_honor_backends Map.empty ''user'' (Some ''professional'')
   \<and> \<not> test_proctoring_perm test_honor_backends Map.empty ''user'' (Some ''no-id-professional'')"
  using proctoring_perm_by_mode [of test_honor_backends Map.empty "''user''" test_course_id None]
  by (simp add: test_proctoring_perm_data_def)

text \<open>
  C7. For a user enrolled in honor mode the permission is granted exactly when the context
  names a backend whose configuration sets \<^verbatim>\<open>allow_honor_mode\<close> to true; it is denied
  when the context names no backend, and when no backend is configured.
\<close>

theorem proctoring_perm_honor:
  assumes "en (u, exam_course_id ctx) = Some ''honor''"
  shows "can_take_proctored_exam backends en u ctx =
           (\<exists>name config. exam_backend ctx = Some name \<and> backends name = Some config \<and>
              config ''allow_honor_mode'' = Some True)
       \<and> \<not> can_take_proctored_exam backends en u (ctx\<lparr>exam_backend := None\<rparr>)
       \<and> \<not> can_take_proctored_exam Map.empty en u ctx"
  using assms
  by (auto simp: can_take_proctored_exam_def allow_honor_mode_def split: option.splits)

theorem proctoring_perm_honor_witness:
  "enroll (test_setUp Map.empty ''user'') ''user'' test_course_id ''honor''
     (''user'', exam_course_id \<lparr>exam_course_id = test_course_id,
        exam_backend = Some ''mock_proctoring_allow_honor_mode'', exam_is_proctored = Some True\<rparr>) = Some ''honor''
   \<and> test_proctoring_perm_with_honor_mode_permission Map.empty ''user''
   \<and> \<not> can_take_proctored_exam test_honor_backends
         (enroll (test_setUp Map.empty ''user'') ''user'' test_course_id ''honor'') ''user''
         \<lparr>exam_course_id = test_course_id, exam_backend = None, exam_is_proctored = Some True\<rparr>"
proof -
  let ?en = "enroll (test_setUp Map.empty ''user'') ''user'' test_course_id ''honor''"
  let ?ctx = "\<lparr>exam_course_id = test_course_id,
        exam_backend = Some ''mock_proctoring_allow_honor_mode'', exam_is_proctored = Some True\<rparr>"
  have h: "?en (''user'', exam_course_id ?ctx) = Some ''honor''"
    by (simp add: enroll_def)
  have b: "test_honor_backends ''mock_proctoring_allow_honor_mode'' = Some [''allow_honor_mode'' \<mapsto> True]"
    by (simp add: test_honor_backends_def)
  from proctoring_perm_honor [where en = ?en and u = "''user''" and ctx = ?ctx and backends = test_honor_backends, OF h] b
  have 1: "can_take_proctored_exam test_honor_backends ?en ''user'' ?ctx"
    and 2: "\<not> can_take_proctored_exam test_honor_backends ?en ''user'' (?ctx\<lparr>exam_backend := None\<rparr>)"
    by simp_all
  from 1 2 h show ?thesis
    by (simp add: test_proctoring_perm_with_honor_mode_permission_def)
qed

end
